theory Spec2Isabelle
  imports Complex_Main
begin

section \<open>Values exchanged with the upstream API\<close>

text \<open>
  The values that \<^verbatim>\<open>resp.json()\<close> hands to the program are Python objects built
  from JSON: \<^verbatim>\<open>None\<close>, booleans, integers, floats, strings, lists and dicts with
  string keys. A float is represented by its \<^verbatim>\<open>repr\<close> (for instance \<open>''1.0''\<close>), which
  determines the float; a dict is an association list read with \<open>map_of\<close>.
\<close>

datatype json =
    JNull
  | JBool bool
  | JInt int
  | JFloat string
  | JStr string
  | JList "json list"
  | JObj "(string \<times> json) list"

section \<open>The upstream client (backend/nasa/client.py)\<close>

record response =
  status_code :: int
  json_body :: "json option"

text \<open>
  \<open>json_body\<close> is what \<^verbatim>\<open>resp.json()\<close> yields; \<open>None\<close> stands for a body that is not
  JSON, on which \<^verbatim>\<open>resp.json()\<close> raises \<^verbatim>\<open>requests.exceptions.JSONDecodeError\<close>.

  The exceptions that can arise inside \<^verbatim>\<open>_get\<close>. \<open>Timeout\<close>, \<open>ConnectionError\<close> and
  \<open>HTTPError\<close> are the three classes named by the \<^verbatim>\<open>except\<close> clause (with their
  subclasses); \<open>HTTPError\<close> carries \<^verbatim>\<open>e.response\<close>. \<open>JSONDecodeError\<close> and
  \<open>OtherRequestException\<close> (\<^verbatim>\<open>TooManyRedirects\<close>, \<^verbatim>\<open>InvalidURL\<close>, ...) are
  exceptions of the HTTP library outside those three classes. \<open>ValueError\<close> is what
  \<^verbatim>\<open>time.sleep\<close> raises on a negative duration and \<^verbatim>\<open>datetime.fromisoformat\<close> on a
  string it rejects. \<open>AttributeError\<close> and \<open>TypeError\<close> arise in the normalizer, from
  \<^verbatim>\<open>.get\<close> or \<^verbatim>\<open>.replace\<close> on a value without that method and from iterating a value
  that is not iterable. \<open>EONETClientError\<close> carries its message and the exception it was
  raised \<^verbatim>\<open>from\<close>.
\<close>

datatype exn =
    Timeout
  | ConnectionError
  | HTTPError "response option"
  | JSONDecodeError
  | OtherRequestException string
  | ValueError
  | AttributeError
  | TypeError
  | EONETClientError string "exn option"

text \<open>
  \<^verbatim>\<open>self.session.get(url, params=..., timeout=...)\<close>: the session is outside the
  program, so it is a parameter. Its answer may depend on the URL, the query parameters,
  the timeout and on how many requests were made before (the last argument).
\<close>

type_synonym session = "string \<Rightarrow> (string \<times> json) list \<Rightarrow> int \<Rightarrow> nat \<Rightarrow> exn + response"

text \<open>
  \<^verbatim>\<open>Settings\<close> (backend/config.py) and the fields of \<^verbatim>\<open>EONETClient\<close>. Durations are
  Python floats; they are reals here, so products are exact and there is no NaN.
\<close>

record settings =
  EONET_BASE_URL :: string
  NASA_API_KEY :: "string option"
  HTTP_TIMEOUT_SECONDS :: int
  HTTP_RETRIES :: int
  HTTP_BACKOFF_SECONDS :: real

record client =
  base_url :: string
  timeout :: int
  retries :: int
  backoff :: real
  session :: session

text \<open>What the caller can observe of a call besides its result: requests made and sleeps.\<close>

record effects =
  calls :: nat
  sleeps :: "real list"

definition no_effects :: effects where
  "no_effects = \<lparr>calls = 0, sleeps = []\<rparr>"

definition rstrip :: "char \<Rightarrow> string \<Rightarrow> string" where
  "rstrip c s = rev (dropWhile (\<lambda>x. x = c) (rev s))"

definition lstrip :: "char \<Rightarrow> string \<Rightarrow> string" where
  "lstrip c s = dropWhile (\<lambda>x. x = c) s"

text \<open>
  \<^verbatim>\<open>EONETClient.__init__\<close>, with the session always supplied. \<^verbatim>\<open>x or default\<close> takes the
  default for \<^verbatim>\<open>None\<close>, the empty string and zero.
\<close>

definition EONETClient_init ::
  "settings \<Rightarrow> string option \<Rightarrow> int option \<Rightarrow> int option \<Rightarrow> real option \<Rightarrow> session \<Rightarrow> client" where
  "EONETClient_init cfg url_arg timeout_seconds retries_arg backoff_seconds sess =
     \<lparr>base_url = rstrip CHR ''/''
         (case url_arg of None \<Rightarrow> EONET_BASE_URL cfg
          | Some u \<Rightarrow> if u = [] then EONET_BASE_URL cfg else u),
      timeout = (case timeout_seconds of None \<Rightarrow> HTTP_TIMEOUT_SECONDS cfg
          | Some t \<Rightarrow> if t = 0 then HTTP_TIMEOUT_SECONDS cfg else t),
      retries = (case retries_arg of None \<Rightarrow> HTTP_RETRIES cfg | Some r \<Rightarrow> r),
      backoff = (case backoff_seconds of None \<Rightarrow> HTTP_BACKOFF_SECONDS cfg | Some b \<Rightarrow> b),
      session = sess\<rparr>"

subsection \<open>Decimal rendering of integers (\<^verbatim>\<open>str\<close>, f-strings)\<close>

fun str_nat :: "nat \<Rightarrow> string" where
  "str_nat n = (if n < 10 then [''0123456789'' ! n]
                else str_nat (n div 10) @ [''0123456789'' ! (n mod 10)])"

declare str_nat.simps [simp del]

definition str_int :: "int \<Rightarrow> string" where
  "str_int i = (if i < 0 then CHR ''-'' # str_nat (nat (- i)) else str_nat (nat i))"

subsection \<open>One request\<close>

definition raise_for_status :: "response \<Rightarrow> exn + unit" where
  "raise_for_status resp =
     (if 400 \<le> status_code resp \<and> status_code resp < 600
      then Inl (HTTPError (Some resp)) else Inr ())"

definition resp_json :: "response \<Rightarrow> exn + json" where
  "resp_json resp = (case json_body resp of None \<Rightarrow> Inl JSONDecodeError | Some j \<Rightarrow> Inr j)"

text \<open>The body of the \<^verbatim>\<open>try\<close> block, given what \<^verbatim>\<open>session.get\<close> did.\<close>

definition try_request :: "exn + response \<Rightarrow> exn + json" where
  "try_request got =
     (case got of
        Inl e \<Rightarrow> Inl e
      | Inr resp \<Rightarrow>
          if 500 \<le> status_code resp \<and> status_code resp < 600
          then Inl (HTTPError (Some resp))
          else (case raise_for_status resp of
                  Inl e \<Rightarrow> Inl e
                | Inr _ \<Rightarrow> resp_json resp))"

text \<open>\<^verbatim>\<open>except (requests.Timeout, requests.ConnectionError, requests.HTTPError)\<close>\<close>

fun caught :: "exn \<Rightarrow> bool" where
  "caught Timeout = True"
| "caught ConnectionError = True"
| "caught (HTTPError _) = True"
| "caught _ = False"

text \<open>
  The status for which the handler gives up at once: the exception is an
  \<^verbatim>\<open>HTTPError\<close>, it has a response, and \<^verbatim>\<open>400 <= status < 500 and status != 429\<close>.
\<close>

fun abort_status :: "exn \<Rightarrow> int option" where
  "abort_status (HTTPError (Some resp)) =
     (if 400 \<le> status_code resp \<and> status_code resp < 500 \<and> status_code resp \<noteq> 429
      then Some (status_code resp) else None)"
| "abort_status _ = None"

text \<open>\<^verbatim>\<open>time.sleep(secs)\<close> raises \<^verbatim>\<open>ValueError\<close> on a negative duration.\<close>

definition py_sleep :: "real \<Rightarrow> effects \<Rightarrow> exn + effects" where
  "py_sleep secs fx =
     (if secs < 0 then Inl ValueError else Inr (fx\<lparr>sleeps := sleeps fx @ [secs]\<rparr>))"

definition request_url :: "client \<Rightarrow> string \<Rightarrow> string" where
  "request_url c path = base_url c @ ''/'' @ lstrip CHR ''/'' path"

text \<open>
  The \<^verbatim>\<open>for attempt in range(1, self.retries + 1)\<close> loop, by recursion on the attempt
  numbers still to come; the last equation is the statement after the loop.
\<close>

fun get_loop ::
  "client \<Rightarrow> string \<Rightarrow> (string \<times> json) list \<Rightarrow> int list \<Rightarrow> exn option \<Rightarrow> effects
     \<Rightarrow> (exn + json) \<times> effects" where
  "get_loop c url params [] last_err fx =
     (Inl (EONETClientError (''EONET request failed unexpectedly at '' @ url) last_err), fx)"
| "get_loop c url params (attempt # rest) last_err fx =
     (let fx1 = fx\<lparr>calls := calls fx + 1\<rparr> in
      case try_request (session c url params (timeout c) (calls fx)) of
        Inr j \<Rightarrow> (Inr j, fx1)
      | Inl e \<Rightarrow>
          if \<not> caught e then (Inl e, fx1)
          else (case abort_status e of
                  Some status \<Rightarrow>
                    (Inl (EONETClientError
                       (''EONET request failed ('' @ str_int status @ '') at '' @ url) (Some e)), fx1)
                | None \<Rightarrow>
                    if attempt < retries c
                    then (case py_sleep (backoff c * of_int attempt) fx1 of
                            Inl err \<Rightarrow> (Inl err, fx1)
                          | Inr fx2 \<Rightarrow> get_loop c url params rest (Some e) fx2)
                    else (Inl (EONETClientError
                            (''EONET request failed after retries at '' @ url) (Some e)), fx1)))"

text \<open>\<^verbatim>\<open>params or {}\<close>\<close>

definition params_or_empty :: "(string \<times> json) list option \<Rightarrow> (string \<times> json) list" where
  "params_or_empty params = (case params of None \<Rightarrow> [] | Some ps \<Rightarrow> ps)"

text \<open>\<^verbatim>\<open>EONETClient._get\<close>\<close>

definition EONETClient_get ::
  "client \<Rightarrow> string \<Rightarrow> (string \<times> json) list option \<Rightarrow> effects \<Rightarrow> (exn + json) \<times> effects" where
  "EONETClient_get c path params fx =
     get_loop c (request_url c path) (params_or_empty params) [1..retries c] None fx"

text \<open>The public methods. \<^verbatim>\<open>if category:\<close> holds for a string that is not empty.\<close>

definition events_params ::
  "string option \<Rightarrow> string option \<Rightarrow> string option \<Rightarrow> int option \<Rightarrow> int option
     \<Rightarrow> (string \<times> json) list" where
  "events_params category source status days limit =
     (case category of Some s \<Rightarrow> if s \<noteq> [] then [(''category'', JStr s)] else [] | None \<Rightarrow> [])
   @ (case source of Some s \<Rightarrow> if s \<noteq> [] then [(''source'', JStr s)] else [] | None \<Rightarrow> [])
   @ (case status of Some s \<Rightarrow> if s \<noteq> [] then [(''status'', JStr s)] else [] | None \<Rightarrow> [])
   @ (case days of Some d \<Rightarrow> [(''days'', JInt d)] | None \<Rightarrow> [])
   @ (case limit of Some l \<Rightarrow> [(''limit'', JInt l)] | None \<Rightarrow> [])"

definition get_events ::
  "client \<Rightarrow> string option \<Rightarrow> string option \<Rightarrow> string option \<Rightarrow> int option \<Rightarrow> int option
     \<Rightarrow> effects \<Rightarrow> (exn + json) \<times> effects" where
  "get_events c category source status days limit fx =
     EONETClient_get c ''/events'' (Some (events_params category source status days limit)) fx"

definition get_categories :: "client \<Rightarrow> effects \<Rightarrow> (exn + json) \<times> effects" where
  "get_categories c fx = EONETClient_get c ''/categories'' None fx"

definition get_sources :: "client \<Rightarrow> effects \<Rightarrow> (exn + json) \<times> effects" where
  "get_sources c fx = EONETClient_get c ''/sources'' None fx"

section \<open>The normalizer (backend/nasa/normalizer.py)\<close>

subsection \<open>Python operations on values\<close>

text \<open>
  The standard library is not part of the program. What the normalizer needs of it is a
  parameter: \<^verbatim>\<open>datetime.fromisoformat\<close> (\<open>None\<close> when it raises), \<^verbatim>\<open>datetime.isoformat\<close>
  and the \<^verbatim>\<open>repr\<close> of a string, which \<^verbatim>\<open>str\<close> of a list or dict uses.
\<close>

record 'dt py_lib =
  fromisoformat :: "string \<Rightarrow> 'dt option"
  isoformat :: "'dt \<Rightarrow> string"
  repr_str :: "string \<Rightarrow> string"

text \<open>Truth value of an object, as \<^verbatim>\<open>not value\<close> and \<^verbatim>\<open>x or []\<close> test it.\<close>

fun py_truthy :: "json \<Rightarrow> bool" where
  "py_truthy JNull = False"
| "py_truthy (JBool b) = b"
| "py_truthy (JInt i) = (i \<noteq> 0)"
| "py_truthy (JFloat r) = (r \<noteq> ''0.0'' \<and> r \<noteq> ''-0.0'')"
| "py_truthy (JStr s) = (s \<noteq> [])"
| "py_truthy (JList xs) = (xs \<noteq> [])"
| "py_truthy (JObj kvs) = (kvs \<noteq> [])"

definition py_or :: "json \<Rightarrow> json \<Rightarrow> json" where
  "py_or x y = (if py_truthy x then x else y)"

text \<open>\<^verbatim>\<open>x.get(key, default)\<close>: only a dict has the method.\<close>

fun py_get :: "json \<Rightarrow> string \<Rightarrow> json \<Rightarrow> exn + json" where
  "py_get (JObj kvs) k d = Inr (case map_of kvs k of None \<Rightarrow> d | Some v \<Rightarrow> v)"
| "py_get _ k d = Inl AttributeError"

text \<open>
  The elements a \<^verbatim>\<open>for\<close> loop visits: those of a list, the keys of a dict, the
  characters of a string; any other value is not iterable.
\<close>

fun py_iter :: "json \<Rightarrow> exn + json list" where
  "py_iter (JList xs) = Inr xs"
| "py_iter (JObj kvs) = Inr (map (\<lambda>kv. JStr (fst kv)) kvs)"
| "py_iter (JStr s) = Inr (map (\<lambda>c. JStr [c]) s)"
| "py_iter _ = Inl TypeError"

fun join :: "string \<Rightarrow> string list \<Rightarrow> string" where
  "join sep [] = []"
| "join sep [x] = x"
| "join sep (x # y # ys) = x @ sep @ join sep (y # ys)"

fun py_repr :: "(string \<Rightarrow> string) \<Rightarrow> json \<Rightarrow> string" where
  "py_repr rs JNull = ''None''"
| "py_repr rs (JBool b) = (if b then ''True'' else ''False'')"
| "py_repr rs (JInt i) = str_int i"
| "py_repr rs (JFloat r) = r"
| "py_repr rs (JStr s) = rs s"
| "py_repr rs (JList xs) = ''['' @ join '', '' (map (py_repr rs) xs) @ '']''"
| "py_repr rs (JObj kvs) =
     ''{'' @ join '', '' (map (\<lambda>kv. rs (fst kv) @ '': '' @ py_repr rs (snd kv)) kvs) @ ''}''"

text \<open>\<^verbatim>\<open>str(x)\<close>: a string is itself, everything else is rendered as by \<^verbatim>\<open>repr\<close>.\<close>

definition py_str :: "'dt py_lib \<Rightarrow> json \<Rightarrow> string" where
  "py_str L v = (case v of JStr s \<Rightarrow> s | _ \<Rightarrow> py_repr (repr_str L) v)"

text \<open>Raising ends the computation: the rest runs only on a result.\<close>

definition bind_exn :: "exn + 'a \<Rightarrow> ('a \<Rightarrow> exn + 'b) \<Rightarrow> exn + 'b" where
  "bind_exn m f = (case m of Inl e \<Rightarrow> Inl e | Inr x \<Rightarrow> f x)"

text \<open>\<^verbatim>\<open>out = []; for x in xs: out.append(f(x))\<close>\<close>

fun map_exn :: "('a \<Rightarrow> exn + 'b) \<Rightarrow> 'a list \<Rightarrow> exn + 'b list" where
  "map_exn f [] = Inr []"
| "map_exn f (x # xs) =
     bind_exn (f x) (\<lambda>y. bind_exn (map_exn f xs) (\<lambda>ys. Inr (y # ys)))"

subsection \<open>Timestamps\<close>

text \<open>\<^verbatim>\<open>value.replace("Z", "+00:00")\<close> replaces every \<open>Z\<close> of the string.\<close>

definition replace_Z :: "string \<Rightarrow> string" where
  "replace_Z s = concat (map (\<lambda>c. if c = CHR ''Z'' then ''+00:00'' else [c]) s)"

text \<open>
  The body of the \<^verbatim>\<open>try\<close> block of \<^verbatim>\<open>_try_parse_dt\<close>: \<^verbatim>\<open>value.replace\<close> exists on
  strings only, and \<^verbatim>\<open>fromisoformat\<close> raises \<^verbatim>\<open>ValueError\<close> on a string it rejects.
\<close>

definition parse_and_render :: "'dt py_lib \<Rightarrow> json \<Rightarrow> exn + json" where
  "parse_and_render L v =
     (case v of
        JStr s \<Rightarrow>
          (case fromisoformat L (replace_Z s) of
             None \<Rightarrow> Inl ValueError
           | Some dt \<Rightarrow> Inr (JStr (isoformat L dt)))
      | _ \<Rightarrow> Inl AttributeError)"

text \<open>\<^verbatim>\<open>_try_parse_dt\<close>; \<^verbatim>\<open>except Exception: return value\<close> handles every failure.\<close>

definition try_parse_dt :: "'dt py_lib \<Rightarrow> json \<Rightarrow> json" where
  "try_parse_dt L v =
     (if \<not> py_truthy v then JNull
      else (case parse_and_render L v of Inr r \<Rightarrow> r | Inl _ \<Rightarrow> v))"

subsection \<open>The normalized schema\<close>

text \<open>
  The dataclasses, and the dict that \<^verbatim>\<open>normalize_events\<close> returns. Field names carry
  the prefix of their record. A field the dataclass annotates as \<^verbatim>\<open>str | None\<close> receives
  whatever \<^verbatim>\<open>.get\<close> returned, so it is a \<open>json\<close> value, \<open>JNull\<close> being \<^verbatim>\<open>None\<close>.
  \<^verbatim>\<open>asdict\<close> turns each dataclass into a dict of the same fields with the same values.
\<close>

record normalized_geometry =
  geo_date :: json
  geo_type :: json
  geo_coordinates :: json
  geo_magnitude_value :: json
  geo_magnitude_unit :: json

record normalized_category =
  cat_id :: string
  cat_title :: json

record normalized_source =
  src_id :: string
  src_url :: json

record normalized_event =
  ev_id :: string
  ev_title :: json
  ev_description :: json
  ev_link :: json
  ev_status :: string
  ev_closed :: json
  ev_categories :: "normalized_category list"
  ev_sources :: "normalized_source list"
  ev_geometry :: "normalized_geometry list"

record normalized_response =
  resp_source :: string
  resp_title :: json
  resp_generated_at :: string
  resp_count :: nat
  resp_events :: "normalized_event list"

subsection \<open>\<^verbatim>\<open>normalize_events\<close>\<close>

definition normalize_category :: "'dt py_lib \<Rightarrow> json \<Rightarrow> exn + normalized_category" where
  "normalize_category L c =
     bind_exn (py_get c ''id'' (JStr [])) (\<lambda>i.
     bind_exn (py_get c ''title'' JNull) (\<lambda>t.
       Inr \<lparr>cat_id = py_str L i, cat_title = t\<rparr>))"

definition normalize_source :: "'dt py_lib \<Rightarrow> json \<Rightarrow> exn + normalized_source" where
  "normalize_source L s =
     bind_exn (py_get s ''id'' (JStr [])) (\<lambda>i.
     bind_exn (py_get s ''url'' JNull) (\<lambda>u.
       Inr \<lparr>src_id = py_str L i, src_url = u\<rparr>))"

definition normalize_geometry :: "'dt py_lib \<Rightarrow> json \<Rightarrow> exn + normalized_geometry" where
  "normalize_geometry L g =
     bind_exn (py_get g ''date'' JNull) (\<lambda>d.
     bind_exn (py_get g ''type'' JNull) (\<lambda>t.
     bind_exn (py_get g ''coordinates'' JNull) (\<lambda>co.
     bind_exn (py_get g ''magnitudeValue'' JNull) (\<lambda>mv.
     bind_exn (py_get g ''magnitudeUnit'' JNull) (\<lambda>mu.
       Inr \<lparr>geo_date = try_parse_dt L d, geo_type = t, geo_coordinates = co,
            geo_magnitude_value = mv, geo_magnitude_unit = mu\<rparr>)))))"

text \<open>\<^verbatim>\<open>for x in (ev.get(key) or []): out.append(f(x))\<close>\<close>

definition normalize_seq :: "(json \<Rightarrow> exn + 'a) \<Rightarrow> json \<Rightarrow> string \<Rightarrow> exn + 'a list" where
  "normalize_seq f ev key =
     bind_exn (py_get ev key JNull) (\<lambda>v.
     bind_exn (py_iter (py_or v (JList []))) (\<lambda>xs.
       map_exn f xs))"

text \<open>The body of the loop over the raw events.\<close>

definition normalize_event :: "'dt py_lib \<Rightarrow> json \<Rightarrow> exn + normalized_event" where
  "normalize_event L ev =
     bind_exn (py_get ev ''id'' (JStr [])) (\<lambda>i.
     bind_exn (py_get ev ''title'' JNull) (\<lambda>title.
     bind_exn (py_get ev ''description'' JNull) (\<lambda>desc.
     bind_exn (py_get ev ''link'' JNull) (\<lambda>link.
     bind_exn (py_get ev ''closed'' JNull) (\<lambda>c.
       let closed = try_parse_dt L c;
           status = (if py_truthy closed then ''closed'' else ''open'')
       in
     bind_exn (normalize_seq (normalize_category L) ev ''categories'') (\<lambda>categories.
     bind_exn (normalize_seq (normalize_source L) ev ''sources'') (\<lambda>sources.
     bind_exn (normalize_seq (normalize_geometry L) ev ''geometry'') (\<lambda>geom_list.
       Inr \<lparr>ev_id = py_str L i, ev_title = title, ev_description = desc, ev_link = link,
            ev_status = status, ev_closed = closed, ev_categories = categories,
            ev_sources = sources, ev_geometry = geom_list\<rparr>))))))))"

text \<open>\<^verbatim>\<open>raw_events = eonet_payload.get("events", []) or []\<close>\<close>

definition raw_events :: "json \<Rightarrow> exn + json" where
  "raw_events eonet_payload =
     bind_exn (py_get eonet_payload ''events'' (JList [])) (\<lambda>v. Inr (py_or v (JList [])))"

text \<open>\<open>now\<close> is the reading of \<^verbatim>\<open>datetime.utcnow()\<close>.\<close>

definition normalize_events :: "'dt py_lib \<Rightarrow> 'dt \<Rightarrow> json \<Rightarrow> exn + normalized_response" where
  "normalize_events L now eonet_payload =
     bind_exn (raw_events eonet_payload) (\<lambda>raws.
     bind_exn (py_iter raws) (\<lambda>evs.
     bind_exn (map_exn (normalize_event L) evs) (\<lambda>normalized.
     bind_exn (py_get eonet_payload ''title'' JNull) (\<lambda>title.
       Inr \<lparr>resp_source = ''NASA_EONET_V3'', resp_title = title,
            resp_generated_at = isoformat L now @ ''Z'',
            resp_count = length normalized, resp_events = normalized\<rparr>))))"

subsection \<open>Shapes of raw payloads\<close>

text \<open>
  The inputs on which every loop of \<^verbatim>\<open>normalize_events\<close> finds mappings to read: a
  sequence field is absent, falsy, or a list of dicts.
\<close>

fun is_obj :: "json \<Rightarrow> bool" where
  "is_obj (JObj kvs) = True"
| "is_obj _ = False"

fun is_str :: "json \<Rightarrow> bool" where
  "is_str (JStr s) = True"
| "is_str _ = False"

definition seq_of :: "(json \<Rightarrow> bool) \<Rightarrow> json \<Rightarrow> bool" where
  "seq_of ok v = (\<not> py_truthy v \<or> (case v of JList xs \<Rightarrow> list_all ok xs | _ \<Rightarrow> False))"

definition field :: "(string \<times> json) list \<Rightarrow> string \<Rightarrow> json" where
  "field kvs k = (case map_of kvs k of None \<Rightarrow> JNull | Some v \<Rightarrow> v)"

definition event_ok :: "json \<Rightarrow> bool" where
  "event_ok ev =
     (case ev of
        JObj kvs \<Rightarrow> seq_of is_obj (field kvs ''categories'') \<and> seq_of is_obj (field kvs ''sources'')
                    \<and> seq_of is_obj (field kvs ''geometry'')
      | _ \<Rightarrow> False)"

definition payload_ok :: "json \<Rightarrow> bool" where
  "payload_ok p = (case p of JObj kvs \<Rightarrow> seq_of event_ok (field kvs ''events'') | _ \<Rightarrow> False)"

section \<open>Concrete inputs\<close>

subsection \<open>Sessions and a client\<close>

definition const_session :: "exn + response \<Rightarrow> session" where
  "const_session got url params t n = got"

text \<open>Two server errors, then a success.\<close>

definition flaky_session :: session where
  "flaky_session url params t n =
     (if n < 2 then Inr \<lparr>status_code = 500, json_body = None\<rparr>
      else Inr \<lparr>status_code = 200, json_body = Some (JObj [(''title'', JStr ''T'')])\<rparr>)"

definition default_settings :: settings where
  "default_settings =
     \<lparr>EONET_BASE_URL = ''https://eonet.gsfc.nasa.gov/api/v3'', NASA_API_KEY = None,
      HTTP_TIMEOUT_SECONDS = 15, HTTP_RETRIES = 3, HTTP_BACKOFF_SECONDS = 7 / 10\<rparr>"

definition demo_client :: "int \<Rightarrow> session \<Rightarrow> client" where
  "demo_client n sess = EONETClient_init default_settings None None (Some n) None sess"

subsection \<open>An instance of the library\<close>

text \<open>
  A timestamp parser for the examples. It accepts exactly the form
  \<^verbatim>\<open>YYYY-MM-DDTHH:MM:SS\<close>, optionally followed by an offset \<^verbatim>\<open>+HH:MM\<close> or \<^verbatim>\<open>-HH:MM\<close>, and
  renders as \<^verbatim>\<open>isoformat\<close> does for a time without microseconds. Python's parser accepts
  more forms; the two agree on the strings of the examples. The general theorems hold
  for every library, this one only supplies their concrete instances.
\<close>

record datetime =
  dt_year :: nat
  dt_month :: nat
  dt_day :: nat
  dt_hour :: nat
  dt_minute :: nat
  dt_second :: nat
  dt_utcoffset :: "int option"

definition digit_val :: "char \<Rightarrow> nat option" where
  "digit_val c =
     map_of [(CHR ''0'', 0), (CHR ''1'', 1), (CHR ''2'', 2), (CHR ''3'', 3), (CHR ''4'', 4),
             (CHR ''5'', 5), (CHR ''6'', 6), (CHR ''7'', 7), (CHR ''8'', 8), (CHR ''9'', 9)] c"

fun read_nat :: "nat \<Rightarrow> string \<Rightarrow> nat option" where
  "read_nat acc [] = Some acc"
| "read_nat acc (c # cs) =
     (case digit_val c of None \<Rightarrow> None | Some d \<Rightarrow> read_nat (10 * acc + d) cs)"

definition read_field :: "nat \<Rightarrow> nat \<Rightarrow> string \<Rightarrow> nat option" where
  "read_field start width s =
     (if length s < start + width then None else read_nat 0 (take width (drop start s)))"

definition days_in_month :: "nat \<Rightarrow> nat \<Rightarrow> nat" where
  "days_in_month y m =
     (if m = 2 then (if y mod 4 = 0 \<and> (y mod 100 \<noteq> 0 \<or> y mod 400 = 0) then 29 else 28)
      else if m = 4 \<or> m = 6 \<or> m = 9 \<or> m = 11 then 30 else 31)"

text \<open>The offset in minutes; the outer \<open>None\<close> is a malformed offset.\<close>

definition read_offset :: "string \<Rightarrow> int option option" where
  "read_offset s =
     (if s = [] then Some None
      else if length s \<noteq> 6 \<or> (s ! 0 \<noteq> CHR ''+'' \<and> s ! 0 \<noteq> CHR ''-'') \<or> s ! 3 \<noteq> CHR '':'' then None
      else (case (read_field 1 2 s, read_field 4 2 s) of
              (Some h, Some m) \<Rightarrow>
                if h < 24 \<and> m < 60
                then Some (Some ((if s ! 0 = CHR ''-'' then - 1 else 1) * int (60 * h + m)))
                else None
            | _ \<Rightarrow> None))"

definition iso_parse :: "string \<Rightarrow> datetime option" where
  "iso_parse s =
     (if length s < 19 \<or> s ! 4 \<noteq> CHR ''-'' \<or> s ! 7 \<noteq> CHR ''-'' \<or> s ! 10 \<noteq> CHR ''T''
         \<or> s ! 13 \<noteq> CHR '':'' \<or> s ! 16 \<noteq> CHR '':'' then None
      else (case (read_field 0 4 s, read_field 5 2 s, read_field 8 2 s, read_field 11 2 s,
                  read_field 14 2 s, read_field 17 2 s, read_offset (drop 19 s)) of
              (Some y, Some mo, Some d, Some h, Some mi, Some se, Some off) \<Rightarrow>
                if 1 \<le> y \<and> 1 \<le> mo \<and> mo \<le> 12 \<and> 1 \<le> d \<and> d \<le> days_in_month y mo
                   \<and> h < 24 \<and> mi < 60 \<and> se < 60
                then Some \<lparr>dt_year = y, dt_month = mo, dt_day = d, dt_hour = h, dt_minute = mi,
                           dt_second = se, dt_utcoffset = off\<rparr>
                else None
            | _ \<Rightarrow> None))"

definition pad :: "nat \<Rightarrow> nat \<Rightarrow> string" where
  "pad width n = replicate (width - length (str_nat n)) CHR ''0'' @ str_nat n"

definition render_offset :: "int option \<Rightarrow> string" where
  "render_offset off =
     (case off of
        None \<Rightarrow> []
      | Some m \<Rightarrow> (if m < 0 then ''-'' else ''+'')
                   @ pad 2 (nat \<bar>m\<bar> div 60) @ '':'' @ pad 2 (nat \<bar>m\<bar> mod 60))"

definition iso_render :: "datetime \<Rightarrow> string" where
  "iso_render dt =
     pad 4 (dt_year dt) @ ''-'' @ pad 2 (dt_month dt) @ ''-'' @ pad 2 (dt_day dt) @ ''T''
     @ pad 2 (dt_hour dt) @ '':'' @ pad 2 (dt_minute dt) @ '':'' @ pad 2 (dt_second dt)
     @ render_offset (dt_utcoffset dt)"

text \<open>\<^verbatim>\<open>repr\<close> of a string that needs no escaping: the string between single quotes.\<close>

definition quote_repr :: "string \<Rightarrow> string" where
  "quote_repr s = CHR 0x27 # s @ [CHR 0x27]"

definition example_lib :: "datetime py_lib" where
  "example_lib = \<lparr>fromisoformat = iso_parse, isoformat = iso_render, repr_str = quote_repr\<rparr>"

definition example_now :: datetime where
  "example_now = \<lparr>dt_year = 2024, dt_month = 6, dt_day = 1, dt_hour = 12, dt_minute = 0,
                   dt_second = 0, dt_utcoffset = None\<rparr>"

subsection \<open>Payloads\<close>

definition example_event :: json where
  "example_event =
     JObj [(''id'', JInt 1), (''title'', JStr ''Fire A''), (''closed'', JNull),
           (''categories'', JList [JObj [(''id'', JStr ''wildfires''), (''title'', JStr ''Wildfires'')]]),
           (''sources'', JList []),
           (''geometry'', JList [JObj [(''date'', JStr ''2024-01-01T00:00:00Z''),
                                       (''type'', JStr ''Point''),
                                       (''coordinates'', JList [JFloat ''1.0'', JFloat ''2.0''])]])]"

definition example_payload :: json where
  "example_payload = JObj [(''title'', JStr ''T''), (''events'', JList [example_event])]"

text \<open>An event whose \<^verbatim>\<open>id\<close> is null and whose \<^verbatim>\<open>closed\<close> is a number.\<close>

definition odd_event :: json where
  "odd_event = JObj [(''id'', JNull), (''closed'', JInt 5)]"

definition odd_payload :: json where
  "odd_payload = JObj [(''events'', JList [odd_event, example_event])]"

text \<open>An event whose \<^verbatim>\<open>categories\<close> is a number.\<close>

definition malformed_payload :: json where
  "malformed_payload = JObj [(''events'', JList [JObj [(''id'', JInt 1), (''categories'', JInt 5)]])]"

subsection \<open>What the payloads normalize to\<close>

definition example_normalized :: normalized_event where
  "example_normalized =
     \<lparr>ev_id = ''1'', ev_title = JStr ''Fire A'', ev_description = JNull, ev_link = JNull,
      ev_status = ''open'', ev_closed = JNull,
      ev_categories = [\<lparr>cat_id = ''wildfires'', cat_title = JStr ''Wildfires''\<rparr>],
      ev_sources = [],
      ev_geometry = [\<lparr>geo_date = JStr ''2024-01-01T00:00:00+00:00'', geo_type = JStr ''Point'',
                      geo_coordinates = JList [JFloat ''1.0'', JFloat ''2.0''],
                      geo_magnitude_value = JNull, geo_magnitude_unit = JNull\<rparr>]\<rparr>"

definition odd_normalized :: normalized_event where
  "odd_normalized =
     \<lparr>ev_id = ''None'', ev_title = JNull, ev_description = JNull, ev_link = JNull,
      ev_status = ''closed'', ev_closed = JInt 5,
      ev_categories = [], ev_sources = [], ev_geometry = []\<rparr>"

definition example_result :: normalized_response where
  "example_result =
     \<lparr>resp_source = ''NASA_EONET_V3'', resp_title = JStr ''T'',
      resp_generated_at = ''2024-06-01T12:00:00Z'', resp_count = 1,
      resp_events = [example_normalized]\<rparr>"

definition odd_result :: normalized_response where
  "odd_result =
     \<lparr>resp_source = ''NASA_EONET_V3'', resp_title = JNull,
      resp_generated_at = ''2024-06-01T12:00:00Z'', resp_count = 2,
      resp_events = [odd_normalized, example_normalized]\<rparr>"

section \<open>Properties of the client\<close>

lemma upto_from_1: "1 \<le> n \<Longrightarrow> [1..n] = 1 # [2..n]"
  by (simp add: upto_rec1)

lemma upto_1_3: "[1..3] = [1, 2, 3::int]"
  by (simp add: upto_rec1)

lemma upto_1_2: "[1..2] = [1, 2::int]"
  by (simp add: upto_rec1)

lemma try_request_5xx:
  "500 \<le> status_code r \<Longrightarrow> status_code r < 600 \<Longrightarrow>
   try_request (Inr r) = Inl (HTTPError (Some r))"
  by (simp add: try_request_def)

lemma try_request_4xx:
  "400 \<le> status_code r \<Longrightarrow> status_code r < 500 \<Longrightarrow>
   try_request (Inr r) = Inl (HTTPError (Some r))"
  by (simp add: try_request_def raise_for_status_def)

lemma try_request_ok:
  "\<not> (400 \<le> status_code r \<and> status_code r < 600) \<Longrightarrow> try_request (Inr r) = resp_json r"
  by (auto simp: try_request_def raise_for_status_def)

text \<open>The failures that the handler retries: server errors, 429, and network failures.\<close>

lemma retryable_failures:
  "500 \<le> status_code r \<and> status_code r < 600 \<or> status_code r = 429 \<Longrightarrow>
     try_request (Inr r) = Inl (HTTPError (Some r)) \<and> caught (HTTPError (Some r))
     \<and> abort_status (HTTPError (Some r)) = None"
  "try_request (Inl Timeout) = Inl Timeout \<and> caught Timeout \<and> abort_status Timeout = None"
  "try_request (Inl ConnectionError) = Inl ConnectionError \<and> caught ConnectionError
     \<and> abort_status ConnectionError = None"
  by (auto simp: try_request_def raise_for_status_def)

text \<open>One iteration of the loop, by the way it ends.\<close>

lemma get_loop_return:
  "try_request (session c url ps (timeout c) (calls fx)) = Inr j \<Longrightarrow>
   get_loop c url ps (a # rest) le fx = (Inr j, fx\<lparr>calls := calls fx + 1\<rparr>)"
  by (simp add: Let_def)

lemma get_loop_uncaught:
  "try_request (session c url ps (timeout c) (calls fx)) = Inl e \<Longrightarrow> \<not> caught e \<Longrightarrow>
   get_loop c url ps (a # rest) le fx = (Inl e, fx\<lparr>calls := calls fx + 1\<rparr>)"
  by (simp add: Let_def)

lemma get_loop_abort:
  "try_request (session c url ps (timeout c) (calls fx)) = Inl e \<Longrightarrow> caught e \<Longrightarrow>
   abort_status e = Some s \<Longrightarrow>
   get_loop c url ps (a # rest) le fx =
     (Inl (EONETClientError (''EONET request failed ('' @ str_int s @ '') at '' @ url) (Some e)),
      fx\<lparr>calls := calls fx + 1\<rparr>)"
  by (simp add: Let_def)

lemma get_loop_retry:
  "try_request (session c url ps (timeout c) (calls fx)) = Inl e \<Longrightarrow> caught e \<Longrightarrow>
   abort_status e = None \<Longrightarrow> a < retries c \<Longrightarrow> 0 \<le> backoff c * of_int a \<Longrightarrow>
   get_loop c url ps (a # rest) le fx =
     get_loop c url ps rest (Some e)
       (fx\<lparr>calls := calls fx + 1, sleeps := sleeps fx @ [backoff c * of_int a]\<rparr>)"
  by (simp add: Let_def py_sleep_def)

lemma get_loop_exhausted:
  "try_request (session c url ps (timeout c) (calls fx)) = Inl e \<Longrightarrow> caught e \<Longrightarrow>
   abort_status e = None \<Longrightarrow> \<not> a < retries c \<Longrightarrow>
   get_loop c url ps (a # rest) le fx =
     (Inl (EONETClientError (''EONET request failed after retries at '' @ url) (Some e)),
      fx\<lparr>calls := calls fx + 1\<rparr>)"
  by (simp add: Let_def)

text \<open>
  What can leave the loop: an \<^verbatim>\<open>EONETClientError\<close>, or an exception that the
  \<^verbatim>\<open>except\<close> clause does not name.
\<close>

lemma get_loop_errors:
  "fst (get_loop c url ps attempts le fx) = Inl e \<Longrightarrow>
   (\<exists>msg cause. e = EONETClientError msg cause) \<or> \<not> caught e"
proof (induction attempts arbitrary: le fx)
  case Nil
  then show ?case by auto
next
  case (Cons a rest)
  show ?case
  proof (cases "try_request (session c url ps (timeout c) (calls fx))")
    case (Inr j)
    with Cons.prems show ?thesis by (simp add: Let_def)
  next
    case (Inl x)
    show ?thesis
    proof (cases "caught x")
      case False
      with Inl Cons.prems show ?thesis by (simp add: Let_def)
    next
      case True
      show ?thesis
      proof (cases "abort_status x")
        case (Some s)
        with Inl True Cons.prems show ?thesis by (auto simp: Let_def)
      next
        case None
        show ?thesis
        proof (cases "a < retries c")
          case False
          with Inl True None Cons.prems show ?thesis by (auto simp: Let_def)
        next
          case lt: True
          show ?thesis
          proof (cases "backoff c * of_int a < 0")
            case True
            with Inl \<open>caught x\<close> None lt Cons.prems show ?thesis
              by (auto simp: Let_def py_sleep_def)
          next
            case False
            with Inl \<open>caught x\<close> None lt Cons.prems
            have "fst (get_loop c url ps rest (Some x)
                    (fx\<lparr>calls := calls fx + 1, sleeps := sleeps fx @ [backoff c * of_int a]\<rparr>)) = Inl e"
              by (simp add: Let_def py_sleep_def)
            then show ?thesis by (rule Cons.IH)
          qed
        qed
      qed
    qed
  qed
qed

lemma demo_url: "request_url (demo_client n sess) ''/events'' = ''https://eonet.gsfc.nasa.gov/api/v3/events''"
  by (simp add: request_url_def demo_client_def EONETClient_init_def default_settings_def
      rstrip_def lstrip_def)

lemma demo_fields:
  "retries (demo_client n sess) = n" "backoff (demo_client n sess) = 7 / 10"
  "session (demo_client n sess) = sess" "timeout (demo_client n sess) = 15"
  by (simp_all add: demo_client_def EONETClient_init_def default_settings_def)

lemma no_effects_fields [simp]: "calls no_effects = 0" "sleeps no_effects = []"
  by (simp_all add: no_effects_def)

lemma str_int_404: "str_int 404 = ''404''"
  by (simp add: str_int_def str_nat.simps)

text \<open>
  C1. Only \<^verbatim>\<open>EONETClientError\<close> may leave \<^verbatim>\<open>_get\<close> (and so \<^verbatim>\<open>get_events\<close>,
  \<^verbatim>\<open>get_categories\<close>, \<^verbatim>\<open>get_sources\<close>), also when the body of a 2xx response is not JSON.
  The code does otherwise: on a response with status 200 whose body is not JSON,
  \<^verbatim>\<open>resp.json()\<close> raises a \<^verbatim>\<open>JSONDecodeError\<close>, which the \<^verbatim>\<open>except\<close> clause does not name,
  and it leaves \<^verbatim>\<open>get_events\<close>, \<^verbatim>\<open>get_categories\<close> and \<^verbatim>\<open>get_sources\<close> after a
  single request.
\<close>

theorem json_decode_error_escapes:
  "get_events (demo_client 3 (const_session (Inr \<lparr>status_code = 200, json_body = None\<rparr>)))
     (Some ''wildfires'') None None None None no_effects
     = (Inl JSONDecodeError, no_effects\<lparr>calls := 1\<rparr>)
   \<and> get_categories (demo_client 3 (const_session (Inr \<lparr>status_code = 200, json_body = None\<rparr>)))
       no_effects
     = (Inl JSONDecodeError, no_effects\<lparr>calls := 1\<rparr>)
   \<and> get_sources (demo_client 3 (const_session (Inr \<lparr>status_code = 200, json_body = None\<rparr>)))
       no_effects
     = (Inl JSONDecodeError, no_effects\<lparr>calls := 1\<rparr>)"
  by (simp add: get_events_def get_categories_def get_sources_def EONETClient_get_def
      demo_fields upto_1_3 const_session_def try_request_def raise_for_status_def
      resp_json_def Let_def)

text \<open>
  C3. With \<^verbatim>\<open>retries = 3\<close> (and a backoff base that is a duration, that is, not negative):
  if the first two requests are answered with status 500 and the third with a status
  outside 400..599 and a JSON body \<open>j\<close>, then \<^verbatim>\<open>_get\<close> returns \<open>j\<close>, has made exactly
  three requests, and has slept exactly twice, for \<open>backoff * 1\<close> and then \<open>backoff * 2\<close>.
\<close>

theorem retry_then_success:
  assumes "retries c = 3" and "0 \<le> backoff c"
    and "session c (request_url c path) (params_or_empty params) (timeout c) (calls fx) = Inr r1"
    and "status_code r1 = 500"
    and "session c (request_url c path) (params_or_empty params) (timeout c) (calls fx + 1) = Inr r2"
    and "status_code r2 = 500"
    and "session c (request_url c path) (params_or_empty params) (timeout c) (calls fx + 2) = Inr r3"
    and "\<not> (400 \<le> status_code r3 \<and> status_code r3 < 600)"
    and "json_body r3 = Some j"
  shows "EONETClient_get c path params fx =
           (Inr j, fx\<lparr>calls := calls fx + 3,
                      sleeps := sleeps fx @ [backoff c * 1, backoff c * 2]\<rparr>)"
proof -
  let ?url = "request_url c path"
  let ?ps = "params_or_empty params"
  let ?fx1 = "fx\<lparr>calls := calls fx + 1, sleeps := sleeps fx @ [backoff c * of_int 1]\<rparr>"
  let ?fx2 = "?fx1\<lparr>calls := calls ?fx1 + 1, sleeps := sleeps ?fx1 @ [backoff c * of_int 2]\<rparr>"
  have t1: "try_request (session c ?url ?ps (timeout c) (calls fx)) = Inl (HTTPError (Some r1))"
    using assms(3,4) by (simp add: try_request_5xx)
  have t2: "try_request (session c ?url ?ps (timeout c) (calls ?fx1)) = Inl (HTTPError (Some r2))"
    using assms(5,6) by (simp add: try_request_5xx)
  have t3: "try_request (session c ?url ?ps (timeout c) (calls ?fx2)) = Inr j"
    using assms(7,8,9) by (simp add: try_request_ok resp_json_def)
  have "EONETClient_get c path params fx = get_loop c ?url ?ps [1, 2, 3] None fx"
    using assms(1) by (simp add: EONETClient_get_def upto_1_3)
  also have "\<dots> = get_loop c ?url ?ps [2, 3] (Some (HTTPError (Some r1))) ?fx1"
    using assms(1,2,4) by (intro get_loop_retry [OF t1]) simp_all
  also have "\<dots> = get_loop c ?url ?ps [3] (Some (HTTPError (Some r2))) ?fx2"
    using assms(1,2,6) by (intro get_loop_retry [OF t2]) simp_all
  also have "\<dots> = (Inr j, ?fx2\<lparr>calls := calls ?fx2 + 1\<rparr>)"
    by (rule get_loop_return [OF t3])
  finally show ?thesis by simp
qed

theorem retry_then_success_witness:
  "EONETClient_get (demo_client 3 flaky_session) ''/events'' None no_effects =
     (Inr (JObj [(''title'', JStr ''T'')]),
      no_effects\<lparr>calls := 3, sleeps := [7 / 10 * 1, 7 / 10 * 2]\<rparr>)"
  using retry_then_success [of "demo_client 3 flaky_session" "''/events''" None no_effects
     "\<lparr>status_code = 500, json_body = None\<rparr>" "\<lparr>status_code = 500, json_body = None\<rparr>"
     "\<lparr>status_code = 200, json_body = Some (JObj [(''title'', JStr ''T'')])\<rparr>"
     "JObj [(''title'', JStr ''T'')]"]
  by (simp add: demo_fields flaky_session_def)

text \<open>
  C4. If the first request is answered with a status in 400..499 other than 429, then
  \<^verbatim>\<open>_get\<close> raises \<^verbatim>\<open>EONETClientError\<close> (from the \<^verbatim>\<open>HTTPError\<close>) after exactly that one
  request and without sleeping, whatever the retry budget \<open>retries \<ge> 1\<close> is. A status 429
  is retried instead: when the budget allows a second attempt, the call sleeps for
  \<open>backoff * 1\<close> and goes on with attempt 2.
\<close>

theorem no_retry_on_client_error:
  assumes "session c (request_url c path) (params_or_empty params) (timeout c) (calls fx) = Inr r"
  shows "(1 \<le> retries c \<and> 400 \<le> status_code r \<and> status_code r < 500 \<and> status_code r \<noteq> 429 \<longrightarrow>
            EONETClient_get c path params fx =
              (Inl (EONETClientError
                 (''EONET request failed ('' @ str_int (status_code r) @ '') at '' @ request_url c path)
                 (Some (HTTPError (Some r)))),
               fx\<lparr>calls := calls fx + 1\<rparr>))
       \<and> (2 \<le> retries c \<and> 0 \<le> backoff c \<and> status_code r = 429 \<longrightarrow>
            EONETClient_get c path params fx =
              get_loop c (request_url c path) (params_or_empty params) [2..retries c]
                (Some (HTTPError (Some r)))
                (fx\<lparr>calls := calls fx + 1, sleeps := sleeps fx @ [backoff c * 1]\<rparr>))"
proof (intro conjI impI)
  let ?url = "request_url c path"
  let ?ps = "params_or_empty params"
  assume a: "1 \<le> retries c \<and> 400 \<le> status_code r \<and> status_code r < 500 \<and> status_code r \<noteq> 429"
  have t: "try_request (session c ?url ?ps (timeout c) (calls fx)) = Inl (HTTPError (Some r))"
    using assms a by (simp add: try_request_4xx)
  have "EONETClient_get c path params fx = get_loop c ?url ?ps (1 # [2..retries c]) None fx"
    using a by (simp add: EONETClient_get_def upto_from_1)
  also have "\<dots> = (Inl (EONETClientError
       (''EONET request failed ('' @ str_int (status_code r) @ '') at '' @ ?url)
       (Some (HTTPError (Some r)))), fx\<lparr>calls := calls fx + 1\<rparr>)"
    using a by (intro get_loop_abort [OF t]) simp_all
  finally show "EONETClient_get c path params fx =
      (Inl (EONETClientError
         (''EONET request failed ('' @ str_int (status_code r) @ '') at '' @ ?url)
         (Some (HTTPError (Some r)))), fx\<lparr>calls := calls fx + 1\<rparr>)" .
next
  let ?url = "request_url c path"
  let ?ps = "params_or_empty params"
  assume a: "2 \<le> retries c \<and> 0 \<le> backoff c \<and> status_code r = 429"
  have t: "try_request (session c ?url ?ps (timeout c) (calls fx)) = Inl (HTTPError (Some r))"
    using assms a by (simp add: try_request_4xx)
  have "EONETClient_get c path params fx = get_loop c ?url ?ps (1 # [2..retries c]) None fx"
    using a by (simp add: EONETClient_get_def upto_from_1)
  also have "\<dots> = get_loop c ?url ?ps [2..retries c] (Some (HTTPError (Some r)))
       (fx\<lparr>calls := calls fx + 1, sleeps := sleeps fx @ [backoff c * of_int 1]\<rparr>)"
    using a by (intro get_loop_retry [OF t]) simp_all
  finally show "EONETClient_get c path params fx =
      get_loop c ?url ?ps [2..retries c] (Some (HTTPError (Some r)))
        (fx\<lparr>calls := calls fx + 1, sleeps := sleeps fx @ [backoff c * 1]\<rparr>)"
    by simp
qed

theorem no_retry_on_client_error_witness:
  "EONETClient_get (demo_client 3 (const_session (Inr \<lparr>status_code = 404, json_body = None\<rparr>)))
     ''/events'' None no_effects
     = (Inl (EONETClientError
          ''EONET request failed (404) at https://eonet.gsfc.nasa.gov/api/v3/events''
          (Some (HTTPError (Some \<lparr>status_code = 404, json_body = None\<rparr>)))),
        no_effects\<lparr>calls := 1\<rparr>)
   \<and> EONETClient_get (demo_client 2 (const_session (Inr \<lparr>status_code = 429, json_body = None\<rparr>)))
       ''/events'' None no_effects
     = (Inl (EONETClientError
          ''EONET request failed after retries at https://eonet.gsfc.nasa.gov/api/v3/events''
          (Some (HTTPError (Some \<lparr>status_code = 429, json_body = None\<rparr>)))),
        no_effects\<lparr>calls := 2, sleeps := [7 / 10 * 1]\<rparr>)"
  using no_retry_on_client_error
      [of "demo_client 3 (const_session (Inr \<lparr>status_code = 404, json_body = None\<rparr>))"
          "''/events''" None no_effects "\<lparr>status_code = 404, json_body = None\<rparr>"]
    no_retry_on_client_error
      [of "demo_client 2 (const_session (Inr \<lparr>status_code = 429, json_body = None\<rparr>))"
          "''/events''" None no_effects "\<lparr>status_code = 429, json_body = None\<rparr>"]
  by (simp add: demo_fields demo_url const_session_def str_int_404
      try_request_def raise_for_status_def Let_def)

text \<open>
  C5. With \<^verbatim>\<open>retries = 2\<close> (and a backoff base that is not negative): if both requests
  fail in a way the handler retries (an exception of the \<^verbatim>\<open>except\<close> clause that is not a
  4xx status other than 429; a 503 response for instance), then \<^verbatim>\<open>_get\<close> raises
  \<^verbatim>\<open>EONETClientError\<close> from the second failure, after exactly two requests and exactly
  one sleep, of \<open>backoff * 1\<close>.
\<close>

theorem retries_exhausted:
  assumes "retries c = 2" and "0 \<le> backoff c"
    and "try_request (session c (request_url c path) (params_or_empty params) (timeout c) (calls fx))
           = Inl e1"
    and "caught e1" and "abort_status e1 = None"
    and "try_request (session c (request_url c path) (params_or_empty params) (timeout c) (calls fx + 1))
           = Inl e2"
    and "caught e2" and "abort_status e2 = None"
  shows "EONETClient_get c path params fx =
           (Inl (EONETClientError
              (''EONET request failed after retries at '' @ request_url c path) (Some e2)),
            fx\<lparr>calls := calls fx + 2, sleeps := sleeps fx @ [backoff c * 1]\<rparr>)"
proof -
  let ?url = "request_url c path"
  let ?ps = "params_or_empty params"
  let ?fx1 = "fx\<lparr>calls := calls fx + 1, sleeps := sleeps fx @ [backoff c * of_int 1]\<rparr>"
  have t2: "try_request (session c ?url ?ps (timeout c) (calls ?fx1)) = Inl e2"
    using assms(6) by simp
  have "EONETClient_get c path params fx = get_loop c ?url ?ps [1, 2] None fx"
    using assms(1) by (simp add: EONETClient_get_def upto_1_2)
  also have "\<dots> = get_loop c ?url ?ps [2] (Some e1) ?fx1"
    using assms(1,2) by (intro get_loop_retry [OF assms(3,4,5)]) simp_all
  also have "\<dots> = (Inl (EONETClientError
       (''EONET request failed after retries at '' @ ?url) (Some e2)), ?fx1\<lparr>calls := calls ?fx1 + 1\<rparr>)"
    using assms(1) by (intro get_loop_exhausted [OF t2 assms(7,8)]) simp
  finally show ?thesis by simp
qed

theorem retries_exhausted_witness:
  "EONETClient_get (demo_client 2 (const_session (Inr \<lparr>status_code = 503, json_body = None\<rparr>)))
     ''/events'' None no_effects
     = (Inl (EONETClientError
          ''EONET request failed after retries at https://eonet.gsfc.nasa.gov/api/v3/events''
          (Some (HTTPError (Some \<lparr>status_code = 503, json_body = None\<rparr>)))),
        no_effects\<lparr>calls := 2, sleeps := [7 / 10 * 1]\<rparr>)"
  using retries_exhausted
      [of "demo_client 2 (const_session (Inr \<lparr>status_code = 503, json_body = None\<rparr>))"
          "''/events''" None no_effects
          "HTTPError (Some \<lparr>status_code = 503, json_body = None\<rparr>)"
          "HTTPError (Some \<lparr>status_code = 503, json_body = None\<rparr>)"]
  by (simp add: demo_fields demo_url const_session_def try_request_def)

section \<open>Properties of the normalizer\<close>

subsection \<open>Results and failures of the loops\<close>

lemma bind_exn_Inr: "bind_exn m f = Inr y \<longleftrightarrow> (\<exists>x. m = Inr x \<and> f x = Inr y)"
  by (cases m) (simp_all add: bind_exn_def)

lemma bind_exn_simps [simp]: "bind_exn (Inr x) f = f x" "bind_exn (Inl e) f = Inl e"
  by (simp_all add: bind_exn_def)

lemma map_exn_Inr: "map_exn f xs = Inr ys \<longleftrightarrow> list_all2 (\<lambda>x y. f x = Inr y) xs ys"
proof (induction xs arbitrary: ys)
  case Nil
  then show ?case by auto
next
  case (Cons x xs)
  then show ?case by (auto simp: bind_exn_Inr list_all2_Cons1)
qed

lemma map_exn_ok:
  assumes "\<And>x. (\<exists>y. f x = Inr y) = ok x"
  shows "(\<exists>ys. map_exn f xs = Inr ys) = list_all ok xs"
proof (induction xs)
  case Nil
  then show ?case by simp
next
  case (Cons x xs)
  have "(\<exists>ys. map_exn f (x # xs) = Inr ys) = ((\<exists>y. f x = Inr y) \<and> (\<exists>ys. map_exn f xs = Inr ys))"
    by (auto simp: bind_exn_Inr)
  then show ?case using Cons assms by simp
qed

lemma map_exn_strings:
  assumes "\<And>s. \<exists>e. f (JStr s) = Inl e" and "ks \<noteq> []"
  shows "map_exn f (map (\<lambda>k. JStr (g k)) ks) \<noteq> Inr ys"
proof (cases ks)
  case Nil
  with assms(2) show ?thesis by simp
next
  case (Cons k rest)
  obtain e where "f (JStr (g k)) = Inl e" using assms(1) by blast
  with Cons show ?thesis by simp
qed

lemma iter_or_ok:
  assumes ok: "\<And>x. (\<exists>y. f x = Inr y) = ok x" and str: "\<And>s. \<exists>e. f (JStr s) = Inl e"
  shows "(\<exists>ys. bind_exn (py_iter (py_or v (JList []))) (map_exn f) = Inr ys) = seq_of ok v"
proof (cases "py_truthy v")
  case False
  then show ?thesis by (simp add: py_or_def seq_of_def)
next
  case True
  show ?thesis
  proof (cases v)
    case (JList xs)
    with True show ?thesis using map_exn_ok [of f ok xs, OF ok] by (simp add: py_or_def seq_of_def)
  next
    case (JObj kvs)
    with True show ?thesis
      using map_exn_strings [of f kvs fst, OF str] by (simp add: py_or_def seq_of_def)
  next
    case (JStr s)
    with True show ?thesis
      using map_exn_strings [of f s "\<lambda>c. [c]", OF str] by (simp add: py_or_def seq_of_def)
  qed (use True in \<open>simp_all add: py_or_def seq_of_def\<close>)
qed

lemma py_get_obj: "py_get (JObj kvs) k JNull = Inr (field kvs k)"
  by (simp add: field_def)

lemma py_get_Inr: "py_get v k d = Inr x \<Longrightarrow> is_obj v"
  by (cases v) simp_all

lemma py_get_not_obj: "\<not> is_obj v \<Longrightarrow> py_get v k d = Inl AttributeError"
  by (cases v) simp_all

lemma normalize_category_ok: "(\<exists>y. normalize_category L c = Inr y) = is_obj c"
  by (cases c) (simp_all add: normalize_category_def)

lemma normalize_source_ok: "(\<exists>y. normalize_source L c = Inr y) = is_obj c"
  by (cases c) (simp_all add: normalize_source_def)

lemma normalize_geometry_ok: "(\<exists>y. normalize_geometry L c = Inr y) = is_obj c"
  by (cases c) (simp_all add: normalize_geometry_def)

lemma normalize_seq_ok:
  assumes "\<And>x. (\<exists>y. f x = Inr y) = ok x" and "\<And>s. \<exists>e. f (JStr s) = Inl e"
  shows "(\<exists>ys. normalize_seq f (JObj kvs) key = Inr ys) = seq_of ok (field kvs key)"
  using iter_or_ok [of f ok "field kvs key", OF assms]
  by (simp add: normalize_seq_def field_def)

lemma categories_ok:
  "(\<exists>ys. normalize_seq (normalize_category L) (JObj kvs) key = Inr ys) = seq_of is_obj (field kvs key)"
  by (rule normalize_seq_ok) (simp add: normalize_category_ok, simp add: normalize_category_def)

lemma sources_ok:
  "(\<exists>ys. normalize_seq (normalize_source L) (JObj kvs) key = Inr ys) = seq_of is_obj (field kvs key)"
  by (rule normalize_seq_ok) (simp add: normalize_source_ok, simp add: normalize_source_def)

lemma geometry_ok:
  "(\<exists>ys. normalize_seq (normalize_geometry L) (JObj kvs) key = Inr ys) = seq_of is_obj (field kvs key)"
  by (rule normalize_seq_ok) (simp add: normalize_geometry_ok, simp add: normalize_geometry_def)

text \<open>What a normalized event holds, read off the loop body.\<close>

lemma normalize_event_obj:
  "normalize_event L (JObj kvs) =
     bind_exn (normalize_seq (normalize_category L) (JObj kvs) ''categories'') (\<lambda>categories.
     bind_exn (normalize_seq (normalize_source L) (JObj kvs) ''sources'') (\<lambda>sources.
     bind_exn (normalize_seq (normalize_geometry L) (JObj kvs) ''geometry'') (\<lambda>geom_list.
       Inr \<lparr>ev_id = py_str L (case map_of kvs ''id'' of None \<Rightarrow> JStr [] | Some v \<Rightarrow> v),
            ev_title = field kvs ''title'', ev_description = field kvs ''description'',
            ev_link = field kvs ''link'',
            ev_status = (if py_truthy (try_parse_dt L (field kvs ''closed'')) then ''closed'' else ''open''),
            ev_closed = try_parse_dt L (field kvs ''closed''), ev_categories = categories,
            ev_sources = sources, ev_geometry = geom_list\<rparr>)))"
  by (simp add: normalize_event_def field_def Let_def)

lemma normalize_event_not_obj: "\<not> is_obj ev \<Longrightarrow> normalize_event L ev = Inl AttributeError"
  by (simp add: normalize_event_def py_get_not_obj)

lemma normalize_event_ok: "(\<exists>e. normalize_event L ev = Inr e) = event_ok ev"
proof (cases ev)
  case (JObj kvs)
  show ?thesis
    unfolding JObj normalize_event_obj
    using categories_ok [of L kvs "''categories''"] sources_ok [of L kvs "''sources''"]
      geometry_ok [of L kvs "''geometry''"]
    by (auto simp: bind_exn_Inr event_ok_def)
qed (simp_all add: normalize_event_not_obj event_ok_def)

lemma normalize_event_fields:
  assumes "normalize_event L ev = Inr e"
  obtains kvs where "ev = JObj kvs"
    and "ev_id e = py_str L (case map_of kvs ''id'' of None \<Rightarrow> JStr [] | Some v \<Rightarrow> v)"
    and "ev_closed e = try_parse_dt L (field kvs ''closed'')"
    and "ev_status e = (if py_truthy (ev_closed e) then ''closed'' else ''open'')"
proof (cases ev)
  case (JObj kvs)
  with assms that [of kvs] show ?thesis
    by (auto simp: normalize_event_obj bind_exn_Inr)
qed (use assms in \<open>simp_all add: normalize_event_not_obj\<close>)

lemma raw_events_obj:
  "raw_events (JObj kvs) = Inr (py_or (field kvs ''events'') (JList []))"
  by (simp add: raw_events_def field_def py_or_def split: option.split)

lemma normalize_events_parts:
  assumes "normalize_events L now p = Inr r"
  obtains raws evs where "raw_events p = Inr raws" and "py_iter raws = Inr evs"
    and "list_all2 (\<lambda>x y. normalize_event L x = Inr y) evs (resp_events r)"
    and "resp_count r = length (resp_events r)"
proof -
  from assms obtain raws evs normalized title
    where "raw_events p = Inr raws" and "py_iter raws = Inr evs"
      and "map_exn (normalize_event L) evs = Inr normalized"
      and "r = \<lparr>resp_source = ''NASA_EONET_V3'', resp_title = title,
                 resp_generated_at = isoformat L now @ ''Z'',
                 resp_count = length normalized, resp_events = normalized\<rparr>"
    unfolding normalize_events_def bind_exn_Inr by blast
  then show ?thesis using that [of raws evs] by (simp add: map_exn_Inr)
qed

lemma normalize_events_ok: "(\<exists>r. normalize_events L now p = Inr r) = payload_ok p"
proof (cases p)
  case (JObj kvs)
  have "(\<exists>ys. bind_exn (py_iter (py_or (field kvs ''events'') (JList []))) (map_exn (normalize_event L)) = Inr ys)
          = seq_of event_ok (field kvs ''events'')"
    by (rule iter_or_ok) (simp_all add: normalize_event_ok normalize_event_not_obj)
  then show ?thesis
    unfolding JObj normalize_events_def raw_events_obj
    by (auto simp: bind_exn_Inr field_def payload_ok_def)
qed (simp_all add: normalize_events_def raw_events_def payload_ok_def)

subsection \<open>Timestamps\<close>

lemma try_parse_dt_falsy: "\<not> py_truthy v \<Longrightarrow> try_parse_dt L v = JNull"
  by (simp add: try_parse_dt_def)

lemma try_parse_dt_not_str: "py_truthy v \<Longrightarrow> \<not> is_str v \<Longrightarrow> try_parse_dt L v = v"
  by (cases v) (simp_all add: try_parse_dt_def parse_and_render_def)

lemma try_parse_dt_str:
  "s \<noteq> [] \<Longrightarrow>
   try_parse_dt L (JStr s) =
     (case fromisoformat L (replace_Z s) of None \<Rightarrow> JStr s | Some dt \<Rightarrow> JStr (isoformat L dt))"
  by (simp add: try_parse_dt_def parse_and_render_def split: option.split)

lemma try_parse_dt_truthy:
  assumes "\<And>dt. isoformat L dt \<noteq> []"
  shows "py_truthy (try_parse_dt L v) = (try_parse_dt L v \<noteq> JNull)"
proof (cases "py_truthy v")
  case False
  then show ?thesis by (simp add: try_parse_dt_falsy)
next
  case True
  show ?thesis
  proof (cases "is_str v")
    case False
    with True show ?thesis by (auto simp: try_parse_dt_not_str)
  next
    case True
    then obtain s where v: "v = JStr s" by (cases v) simp_all
    with \<open>py_truthy v\<close> have "s \<noteq> []" by simp
    then show ?thesis using assms by (simp add: v try_parse_dt_str split: option.split)
  qed
qed

lemma replace_Z_append: "replace_Z (s @ t) = replace_Z s @ replace_Z t"
  by (simp add: replace_Z_def)

lemma replace_Z_no_Z: "CHR ''Z'' \<notin> set s \<Longrightarrow> replace_Z s = s"
  by (induction s) (auto simp: replace_Z_def)

lemma normalize_geometry_date:
  assumes "normalize_geometry L g = Inr x"
  obtains kvs where "g = JObj kvs" and "geo_date x = try_parse_dt L (field kvs ''date'')"
proof (cases g)
  case (JObj kvs)
  with assms that [of kvs] show ?thesis
    by (auto simp: normalize_geometry_def field_def)
qed (use assms in \<open>simp_all add: normalize_geometry_def\<close>)

lemma iso_render_nonempty: "iso_render dt \<noteq> []"
  by (simp add: iso_render_def)

subsection \<open>The examples, computed\<close>

lemma example_payload_normalized:
  "normalize_events example_lib example_now example_payload = Inr example_result"
  by code_simp

lemma odd_payload_normalized:
  "normalize_events example_lib example_now odd_payload = Inr odd_result"
  by code_simp

lemma odd_payload_events:
  "raw_events odd_payload = Inr (JList [odd_event, example_event])"
  by code_simp

lemma example_parse:
  "iso_parse (replace_Z ''2024-01-01T00:00:00Z'') =
     Some \<lparr>dt_year = 2024, dt_month = 1, dt_day = 1, dt_hour = 0, dt_minute = 0,
           dt_second = 0, dt_utcoffset = Some 0\<rparr>"
  by code_simp

lemma example_render:
  "iso_render \<lparr>dt_year = 2024, dt_month = 1, dt_day = 1, dt_hour = 0, dt_minute = 0,
               dt_second = 0, dt_utcoffset = Some 0\<rparr> = ''2024-01-01T00:00:00+00:00''"
  by code_simp

lemma not_a_date_rejected: "iso_parse (replace_Z ''not-a-date'') = None"
  by code_simp

lemma example_shapes: "payload_ok example_payload" "payload_ok odd_payload"
  by code_simp+

lemma example_lib_fields [simp]:
  "fromisoformat example_lib = iso_parse" "isoformat example_lib = iso_render"
  "repr_str example_lib = quote_repr"
  by (simp_all add: example_lib_def)

subsection \<open>The claims\<close>

text \<open>
  C2, as stated: \<^verbatim>\<open>normalize_events\<close> succeeds on every input whose top level is a
  mapping, whatever the optional fields hold. It does not: on the mapping
  \<^verbatim>\<open>{"events": [{"id": 1, "categories": 5}]}\<close> the loop over \<^verbatim>\<open>categories\<close> raises
  \<^verbatim>\<open>TypeError\<close>.
\<close>

theorem malformed_field_raises:
  "is_obj malformed_payload
   \<and> normalize_events example_lib example_now malformed_payload = Inl TypeError"
  by code_simp

text \<open>
  C2, amended: \<^verbatim>\<open>normalize_events\<close> succeeds exactly on the inputs that are a mapping
  whose \<^verbatim>\<open>events\<close> is absent, falsy or a list of mappings, each of which has
  \<^verbatim>\<open>categories\<close>, \<^verbatim>\<open>sources\<close> and \<^verbatim>\<open>geometry\<close> absent, falsy or a list of mappings. Within
  these, every key may be missing and every other field may hold any value.
\<close>

theorem normalize_events_succeeds_iff:
  "(\<exists>r. normalize_events L now p = Inr r) = payload_ok p"
proof (cases "is_obj p")
  case False
  then have "normalize_events L now p = Inl AttributeError"
    by (simp add: normalize_events_def raw_events_def py_get_not_obj)
  moreover have "\<not> payload_ok p"
    using False by (cases p) (simp_all add: payload_ok_def)
  ultimately show ?thesis by simp
next
  case True
  then obtain kvs where p: "p = JObj kvs" by (cases p) simp_all
  let ?evs = "field kvs ''events''"
  have loop: "(\<exists>ys. bind_exn (py_iter (py_or ?evs (JList []))) (map_exn (normalize_event L)) = Inr ys)
                = seq_of event_ok ?evs"
    by (rule iter_or_ok) (simp_all add: normalize_event_ok normalize_event_not_obj)
  have "(\<exists>r. normalize_events L now p = Inr r)
          = (\<exists>ys. bind_exn (py_iter (py_or ?evs (JList []))) (map_exn (normalize_event L)) = Inr ys)"
    unfolding p normalize_events_def raw_events_obj
    by (auto simp: bind_exn_Inr field_def)
  also have "\<dots> = payload_ok p"
    unfolding loop by (simp add: p payload_ok_def)
  finally show ?thesis .
qed

theorem normalize_events_succeeds_iff_witness:
  "payload_ok example_payload
   \<and> (\<exists>r. normalize_events example_lib example_now example_payload = Inr r)"
  using normalize_events_succeeds_iff [of example_lib example_now example_payload]
    example_shapes(1)
  by simp

text \<open>
  C6. The timestamp rule of \<^verbatim>\<open>_try_parse_dt\<close>, which yields the \<^verbatim>\<open>closed\<close> of an event and
  the \<^verbatim>\<open>date\<close> of a geometry: a value that is absent or empty (falsy) gives \<^verbatim>\<open>None\<close>; a
  non-empty string is handed to \<^verbatim>\<open>fromisoformat\<close> with \<open>Z\<close> replaced by \<open>+00:00\<close> (so a
  trailing \<open>Z\<close> reads as the UTC offset) and, when that parses, the result is the
  \<^verbatim>\<open>isoformat\<close> rendering; when it does not parse, the result is the original string.
\<close>

theorem timestamp_rule:
  "(\<not> py_truthy v \<longrightarrow> try_parse_dt L v = JNull)
   \<and> (s \<noteq> [] \<and> fromisoformat L (replace_Z s) = Some dt \<longrightarrow>
        try_parse_dt L (JStr s) = JStr (isoformat L dt))
   \<and> (s \<noteq> [] \<and> fromisoformat L (replace_Z s) = None \<longrightarrow> try_parse_dt L (JStr s) = JStr s)
   \<and> (CHR ''Z'' \<notin> set t \<longrightarrow> replace_Z (t @ ''Z'') = t @ ''+00:00'')
   \<and> (normalize_event L ev = Inr e \<longrightarrow>
        (\<exists>kvs. ev = JObj kvs \<and> ev_closed e = try_parse_dt L (field kvs ''closed'')))
   \<and> (normalize_geometry L g = Inr x \<longrightarrow>
        (\<exists>kvs. g = JObj kvs \<and> geo_date x = try_parse_dt L (field kvs ''date'')))"
proof (intro conjI impI)
  assume "\<not> py_truthy v"
  then show "try_parse_dt L v = JNull" by (rule try_parse_dt_falsy)
next
  assume "s \<noteq> [] \<and> fromisoformat L (replace_Z s) = Some dt"
  then show "try_parse_dt L (JStr s) = JStr (isoformat L dt)" by (simp add: try_parse_dt_str)
next
  assume "s \<noteq> [] \<and> fromisoformat L (replace_Z s) = None"
  then show "try_parse_dt L (JStr s) = JStr s" by (simp add: try_parse_dt_str)
next
  assume "CHR ''Z'' \<notin> set t"
  then show "replace_Z (t @ ''Z'') = t @ ''+00:00''"
    by (simp add: replace_Z_append replace_Z_no_Z) (simp add: replace_Z_def)
next
  assume "normalize_event L ev = Inr e"
  then show "\<exists>kvs. ev = JObj kvs \<and> ev_closed e = try_parse_dt L (field kvs ''closed'')"
    by (rule normalize_event_fields) blast
next
  assume "normalize_geometry L g = Inr x"
  then show "\<exists>kvs. g = JObj kvs \<and> geo_date x = try_parse_dt L (field kvs ''date'')"
    by (rule normalize_geometry_date) blast
qed

theorem timestamp_rule_witness:
  "try_parse_dt example_lib JNull = JNull
   \<and> try_parse_dt example_lib (JStr []) = JNull
   \<and> try_parse_dt example_lib (JStr ''2024-01-01T00:00:00Z'') = JStr ''2024-01-01T00:00:00+00:00''
   \<and> try_parse_dt example_lib (JStr ''not-a-date'') = JStr ''not-a-date''
   \<and> replace_Z ''2024-01-01T00:00:00Z'' = ''2024-01-01T00:00:00+00:00''
   \<and> ev_closed odd_normalized = try_parse_dt example_lib (JInt 5)"
  using timestamp_rule [of JNull example_lib "''2024-01-01T00:00:00Z''"
      "\<lparr>dt_year = 2024, dt_month = 1, dt_day = 1, dt_hour = 0, dt_minute = 0,
        dt_second = 0, dt_utcoffset = Some 0\<rparr>" "''2024-01-01T00:00:00''"]
    timestamp_rule [of "JStr []" example_lib "''not-a-date''"]
    example_parse example_render not_a_date_rejected
  by (simp add: try_parse_dt_not_str odd_normalized_def)

text \<open>
  C7. In every event that \<^verbatim>\<open>normalize_events\<close> produces, \<^verbatim>\<open>status\<close> is \<^verbatim>\<open>"closed"\<close>
  exactly when \<^verbatim>\<open>closed\<close> is not \<^verbatim>\<open>None\<close>, and \<^verbatim>\<open>"open"\<close> otherwise (\<^verbatim>\<open>isoformat\<close> never
  renders the empty string).
\<close>

theorem status_closed_iff:
  assumes "\<And>dt. isoformat L dt \<noteq> []"
    and "normalize_events L now p = Inr r"
    and "e \<in> set (resp_events r)"
  shows "(ev_status e = ''closed'') = (ev_closed e \<noteq> JNull)
         \<and> (ev_status e = ''open'') = (ev_closed e = JNull)"
proof -
  from assms(2) obtain raws evs
    where "list_all2 (\<lambda>x y. normalize_event L x = Inr y) evs (resp_events r)"
    by (rule normalize_events_parts)
  with assms(3) obtain x where "normalize_event L x = Inr e"
    by (auto simp: list_all2_conv_all_nth in_set_conv_nth)
  then obtain kvs where c: "ev_closed e = try_parse_dt L (field kvs ''closed'')"
    and s: "ev_status e = (if py_truthy (ev_closed e) then ''closed'' else ''open'')"
    by (rule normalize_event_fields)
  have "py_truthy (ev_closed e) = (ev_closed e \<noteq> JNull)"
    unfolding c using assms(1) by (rule try_parse_dt_truthy)
  with s show ?thesis by simp
qed

theorem status_closed_iff_witness:
  "normalize_events example_lib example_now odd_payload = Inr odd_result
   \<and> resp_events odd_result = [odd_normalized, example_normalized]
   \<and> ev_status odd_normalized = ''closed'' \<and> ev_closed odd_normalized = JInt 5
   \<and> ev_status example_normalized = ''open'' \<and> ev_closed example_normalized = JNull"
  using status_closed_iff [of example_lib example_now odd_payload odd_result odd_normalized]
    status_closed_iff [of example_lib example_now odd_payload odd_result example_normalized]
    odd_payload_normalized iso_render_nonempty
  by (simp add: odd_result_def odd_normalized_def example_normalized_def)

text \<open>
  C8. Whenever \<^verbatim>\<open>normalize_events\<close> succeeds, \<^verbatim>\<open>count\<close> is the length of \<^verbatim>\<open>events\<close>, and
  \<^verbatim>\<open>events\<close> follows the raw input: it has as many entries as the raw \<^verbatim>\<open>events\<close>, and
  its entry number \<open>i\<close> is the normalization of raw event number \<open>i\<close>.
\<close>

theorem count_and_order:
  assumes "normalize_events L now p = Inr r"
  shows "resp_count r = length (resp_events r)
         \<and> (\<exists>raws evs. raw_events p = Inr raws \<and> py_iter raws = Inr evs
              \<and> length (resp_events r) = length evs
              \<and> (\<forall>i<length evs. normalize_event L (evs ! i) = Inr (resp_events r ! i)))"
proof -
  from assms obtain raws evs
    where "raw_events p = Inr raws" and "py_iter raws = Inr evs"
      and "list_all2 (\<lambda>x y. normalize_event L x = Inr y) evs (resp_events r)"
      and "resp_count r = length (resp_events r)"
    by (rule normalize_events_parts)
  then show ?thesis by (auto simp: list_all2_conv_all_nth)
qed

theorem count_and_order_witness:
  "normalize_events example_lib example_now odd_payload = Inr odd_result
   \<and> resp_count odd_result = 2
   \<and> resp_events odd_result = [odd_normalized, example_normalized]
   \<and> raw_events odd_payload = Inr (JList [odd_event, example_event])"
  using count_and_order [of example_lib example_now odd_payload odd_result]
    odd_payload_normalized odd_payload_events
  by (simp add: odd_result_def)

text \<open>
  C9. A raw event whose \<^verbatim>\<open>id\<close> key is present and null is normalized to an event with id
  \<^verbatim>\<open>"None"\<close>; the empty string is the id when the key is absent; a present key gives
  \<^verbatim>\<open>str\<close> of its value.
\<close>

theorem null_id_is_None:
  assumes "normalize_events L now p = Inr r"
    and "raw_events p = Inr raws" and "py_iter raws = Inr evs"
    and "i < length evs" and "evs ! i = JObj kvs"
  shows "(map_of kvs ''id'' = Some JNull \<longrightarrow> ev_id (resp_events r ! i) = ''None'')
         \<and> (map_of kvs ''id'' = None \<longrightarrow> ev_id (resp_events r ! i) = [])
         \<and> (\<forall>v. map_of kvs ''id'' = Some v \<longrightarrow> ev_id (resp_events r ! i) = py_str L v)"
proof -
  from assms(1) obtain raws' evs'
    where "raw_events p = Inr raws'" and "py_iter raws' = Inr evs'"
      and l: "list_all2 (\<lambda>x y. normalize_event L x = Inr y) evs' (resp_events r)"
    by (rule normalize_events_parts)
  with assms(2,3) have "evs' = evs" by simp
  with l assms(4,5) have "normalize_event L (JObj kvs) = Inr (resp_events r ! i)"
    by (auto simp: list_all2_conv_all_nth)
  then obtain kvs' where "JObj kvs = JObj kvs'"
    and "ev_id (resp_events r ! i)
           = py_str L (case map_of kvs' ''id'' of None \<Rightarrow> JStr [] | Some v \<Rightarrow> v)"
    by (rule normalize_event_fields)
  then have id: "ev_id (resp_events r ! i)
      = py_str L (case map_of kvs ''id'' of None \<Rightarrow> JStr [] | Some v \<Rightarrow> v)"
    by simp
  show ?thesis
  proof (intro conjI impI allI)
    assume "map_of kvs ''id'' = Some JNull"
    with id show "ev_id (resp_events r ! i) = ''None''" by (simp add: py_str_def)
  next
    assume "map_of kvs ''id'' = None"
    with id show "ev_id (resp_events r ! i) = []" by (simp add: py_str_def)
  next
    fix v
    assume "map_of kvs ''id'' = Some v"
    with id show "ev_id (resp_events r ! i) = py_str L v" by simp
  qed
qed

theorem null_id_is_None_witness:
  "normalize_events example_lib example_now odd_payload = Inr odd_result
   \<and> odd_event = JObj [(''id'', JNull), (''closed'', JInt 5)]
   \<and> ev_id (resp_events odd_result ! 0) = ''None''"
  using null_id_is_None [of example_lib example_now odd_payload odd_result
      "JList [odd_event, example_event]" "[odd_event, example_event]" 0
      "[(''id'', JNull), (''closed'', JInt 5)]"]
    odd_payload_normalized odd_payload_events
  by (simp add: odd_event_def)

text \<open>
  C10. A raw event whose \<^verbatim>\<open>closed\<close> holds a truthy value that is not a string does not
  make \<^verbatim>\<open>normalize_events\<close> fail (the payload being of the shape on which it succeeds):
  the value is the \<^verbatim>\<open>closed\<close> of the normalized event, unchanged, and its status is
  \<^verbatim>\<open>"closed"\<close>.
\<close>

theorem truthy_closed_passes_through:
  assumes "payload_ok p"
    and "raw_events p = Inr raws" and "py_iter raws = Inr evs"
    and "i < length evs" and "evs ! i = JObj kvs"
    and "map_of kvs ''closed'' = Some v" and "py_truthy v" and "\<not> is_str v"
  shows "\<exists>r. normalize_events L now p = Inr r
              \<and> ev_closed (resp_events r ! i) = v
              \<and> ev_status (resp_events r ! i) = ''closed''"
proof -
  from assms(1) obtain r where r: "normalize_events L now p = Inr r"
    using normalize_events_ok [of L now p] by blast
  then obtain raws' evs'
    where "raw_events p = Inr raws'" and "py_iter raws' = Inr evs'"
      and l: "list_all2 (\<lambda>x y. normalize_event L x = Inr y) evs' (resp_events r)"
    by (rule normalize_events_parts)
  with assms(2,3) have "evs' = evs" by simp
  with l assms(4,5) have "normalize_event L (JObj kvs) = Inr (resp_events r ! i)"
    by (auto simp: list_all2_conv_all_nth)
  then obtain kvs' where "JObj kvs = JObj kvs'"
    and "ev_closed (resp_events r ! i) = try_parse_dt L (field kvs' ''closed'')"
    and "ev_status (resp_events r ! i)
           = (if py_truthy (ev_closed (resp_events r ! i)) then ''closed'' else ''open'')"
    by (rule normalize_event_fields)
  moreover have "field kvs ''closed'' = v" using assms(6) by (simp add: field_def)
  moreover have "try_parse_dt L v = v" using assms(7,8) by (rule try_parse_dt_not_str)
  ultimately have "ev_closed (resp_events r ! i) = v \<and> ev_status (resp_events r ! i) = ''closed''"
    using assms(7) by simp
  with r show ?thesis by blast
qed

theorem truthy_closed_passes_through_witness:
  "payload_ok odd_payload
   \<and> odd_event = JObj [(''id'', JNull), (''closed'', JInt 5)]
   \<and> (\<exists>r. normalize_events example_lib example_now odd_payload = Inr r
          \<and> ev_closed (resp_events r ! 0) = JInt 5
          \<and> ev_status (resp_events r ! 0) = ''closed'')"
  using truthy_closed_passes_through [of odd_payload "JList [odd_event, example_event]"
      "[odd_event, example_event]" 0 "[(''id'', JNull), (''closed'', JInt 5)]" "JInt 5"
      example_lib example_now]
    example_shapes(2) odd_payload_events
  by (simp add: odd_event_def)

end
